theory Spec2Isabelle
  imports Main "HOL-Library.Word" "HOL-Library.AList"
begin

section \<open>Bytes and hexadecimal text\<close>

text \<open>
  Two values of the handler are printed as lower-case hexadecimal text, two digits for
  each byte: the session token (\<^verbatim>\<open>secrets.token_hex(16)\<close>, 16 random bytes) and
  the identifier of a stored document (\<^verbatim>\<open>str(ObjectId)\<close>, 12 bytes). A block of
  \<open>k\<close> bytes drawn or generated as a whole is a number below \<open>256 ^ k\<close>;
  \<open>to_bytes\<close> gives its bytes, the most significant first.
\<close>

type_synonym byte = "8 word"

fun to_bytes :: "nat \<Rightarrow> nat \<Rightarrow> byte list" where
  "to_bytes 0 n = []"
| "to_bytes (Suc k) n = to_bytes k (n div 256) @ [of_nat (n mod 256)]"

definition hex_digit :: "nat \<Rightarrow> char" where
  "hex_digit n = (if n < 10 then char_of (48 + n) else char_of (87 + n))"

text \<open>\<^verbatim>\<open>binascii.hexlify\<close>, decoded as text.\<close>

definition hexlify :: "byte list \<Rightarrow> string" where
  "hexlify bs = concat (map (\<lambda>b. [hex_digit (unat b div 16), hex_digit (unat b mod 16)]) bs)"

definition hex_val :: "char \<Rightarrow> nat option" where
  "hex_val c =
     (let n = (of_char c :: nat)
      in if 48 \<le> n \<and> n \<le> 57 then Some (n - 48)
         else if 97 \<le> n \<and> n \<le> 102 then Some (n - 87)
         else if 65 \<le> n \<and> n \<le> 70 then Some (n - 55)
         else None)"

text \<open>ASCII whitespace: tab, line feed, vertical tab, form feed, carriage return, space.\<close>

definition is_space :: "char \<Rightarrow> bool" where
  "is_space c = (let n = (of_char c :: nat) in (9 \<le> n \<and> n \<le> 13) \<or> n = 32)"

text \<open>
  \<^verbatim>\<open>bytes.fromhex\<close>: whitespace before a byte and at the end is skipped; a byte
  is two hexadecimal digits, of either case, with nothing between them. None stands for
  its \<^verbatim>\<open>ValueError\<close>.
\<close>

fun fromhex :: "string \<Rightarrow> byte list option" where
  "fromhex [] = Some []"
| "fromhex [c] = (if is_space c then Some [] else None)"
| "fromhex (c # c' # cs) =
     (if is_space c then fromhex (c' # cs)
      else (case hex_val c of
              None \<Rightarrow> None
            | Some t \<Rightarrow>
                (case hex_val c' of
                   None \<Rightarrow> None
                 | Some b \<Rightarrow> map_option ((#) (of_nat (t * 16 + b))) (fromhex cs))))"

section \<open>Errors\<close>

text \<open>
  Every exception the handler can raise is a value. \<open>InvalidId\<close> is raised by the
  \<^verbatim>\<open>ObjectId\<close> constructor, \<open>DuplicateKeyError\<close> by an insertion whose
  identifier is taken, \<open>NoneNotSubscriptable\<close> is the \<^verbatim>\<open>TypeError\<close> of
  \<^verbatim>\<open>None["field"]\<close>, \<open>KeyError\<close> a missing key of a dictionary, \<open>InvalidURI\<close>
  a connection string the client refuses. \<open>BareException\<close> is \<^verbatim>\<open>raise Exception\<close>,
  and \<open>Wrapped p e\<close> is \<^verbatim>\<open>Exception(f"{p}{e}")\<close>, the generic exception a
  \<^verbatim>\<open>try\<close> block of the handler raises in place of \<open>e\<close>.
  Failures of the connection itself are outside the model: a database that is there
  answers.
\<close>

datatype error =
    InvalidId string
  | DuplicateKeyError
  | NoneNotSubscriptable
  | KeyError string
  | InvalidURI string
  | BareException
  | Wrapped string error

section \<open>Documents and collections\<close>

text \<open>
  The handler reaches the database through the driver: \<^verbatim>\<open>ObjectId\<close>,
  \<^verbatim>\<open>find_one\<close>, \<^verbatim>\<open>insert_one\<close> and \<^verbatim>\<open>update_one\<close>. They are
  modelled on the values the handler stores: strings, arrays, embedded documents and
  identifiers.

  The identifier the driver generates for a stored document is 12 bytes, a 96-bit
  number; \<open>binary\<close> gives its bytes and \<open>str_oid\<close> its text.
\<close>

type_synonym objectid = "96 word"

definition binary :: "objectid \<Rightarrow> byte list" where
  "binary oid = to_bytes 12 (unat oid)"

definition str_oid :: "objectid \<Rightarrow> string" where
  "str_oid oid = hexlify (binary oid)"

text \<open>
  \<^verbatim>\<open>ObjectId(s)\<close> for a string: a string of 24 characters that
  \<^verbatim>\<open>bytes.fromhex\<close> parses is accepted, and the object holds the bytes parsed
  (fewer than 12 when the string has whitespace); every other string raises
  \<^verbatim>\<open>InvalidId\<close>.
\<close>

definition ObjectId :: "string \<Rightarrow> error + byte list" where
  "ObjectId s =
     (if length s = 24
      then (case fromhex s of
              None \<Rightarrow> Inl (InvalidId s)
            | Some bs \<Rightarrow> Inr bs)
      else Inl (InvalidId s))"

datatype bson =
    Str string
  | Arr "bson list"
  | Doc "(string \<times> bson) list"
  | OId "byte list"

text \<open>
  A stored document always has an identifier; the handler lets the driver generate it,
  so it is an \<^verbatim>\<open>ObjectId\<close> of 12 bytes. The other fields are an ordered
  dictionary.
\<close>

record stored_doc =
  doc_id :: objectid
  body :: "(string \<times> bson) list"

type_synonym collection = "stored_doc list"

text \<open>\<^verbatim>\<open>doc[key]\<close> and \<^verbatim>\<open>doc.get(key)\<close> on a document read from the store.\<close>

definition doc_get :: "stored_doc \<Rightarrow> string \<Rightarrow> bson option" where
  "doc_get d k = (if k = ''_id'' then Some (OId (binary (doc_id d))) else map_of (body d) k)"

text \<open>
  A filter \<^verbatim>\<open>{field: value, ...}\<close> matches a document when every named field is
  present and equals the value, or is an array with an element equal to the value.
\<close>

definition value_matches :: "bson \<Rightarrow> bson \<Rightarrow> bool" where
  "value_matches v q = (v = q \<or> (case v of Arr xs \<Rightarrow> q \<in> set xs | _ \<Rightarrow> False))"

definition matches :: "(string \<times> bson) list \<Rightarrow> stored_doc \<Rightarrow> bool" where
  "matches flt d =
     list_all (\<lambda>(k, q). case doc_get d k of None \<Rightarrow> False | Some v \<Rightarrow> value_matches v q) flt"

text \<open>\<^verbatim>\<open>find_one\<close>: the first matching document in the collection's order, or None.\<close>

definition find_one :: "collection \<Rightarrow> (string \<times> bson) list \<Rightarrow> stored_doc option" where
  "find_one coll flt = List.find (matches flt) coll"

text \<open>
  \<^verbatim>\<open>insert_one\<close>: the driver generates the identifier \<open>new_id\<close>; the store refuses
  an identifier that is taken. Returns \<^verbatim>\<open>inserted_id\<close> and the new collection.
\<close>

definition insert_one ::
  "collection \<Rightarrow> objectid \<Rightarrow> (string \<times> bson) list \<Rightarrow> error + (objectid \<times> collection)" where
  "insert_one coll new_id flds =
     (if new_id \<in> doc_id ` set coll then Inl DuplicateKeyError
      else Inr (new_id, coll @ [\<lparr>doc_id = new_id, body = flds\<rparr>]))"

text \<open>\<^verbatim>\<open>{"$set": {...}}\<close>: each field is overwritten, or added at the end.\<close>

definition apply_set :: "(string \<times> bson) list \<Rightarrow> stored_doc \<Rightarrow> stored_doc" where
  "apply_set sets d = d\<lparr>body := foldl (\<lambda>b (k, v). AList.update k v b) (body d) sets\<rparr>"

text \<open>
  \<^verbatim>\<open>update_one\<close>: the first matching document is updated. Returns
  \<^verbatim>\<open>matched_count\<close> and the new collection.
\<close>

fun update_one ::
  "collection \<Rightarrow> (string \<times> bson) list \<Rightarrow> (string \<times> bson) list \<Rightarrow> nat \<times> collection" where
  "update_one [] flt sets = (0, [])"
| "update_one (d # ds) flt sets =
     (if matches flt d then (1, apply_set sets d # ds)
      else (fst (update_one ds flt sets), d # snd (update_one ds flt sets)))"

text \<open>The database \<^verbatim>\<open>askage\<close>: \<^verbatim>\<open>db["users"]\<close> and \<^verbatim>\<open>db["conversations"]\<close>.\<close>

record database =
  users :: collection
  conversations :: collection

section \<open>The handler\<close>

subsection \<open>The singleton\<close>

text \<open>
  The class attributes \<^verbatim>\<open>_instance\<close>, \<^verbatim>\<open>_client\<close> and \<^verbatim>\<open>db\<close>
  (\<open>cls_instance\<close>, \<open>cls_client\<close>, \<open>cls_db\<close>).
  \<open>allocated\<close> counts the objects created by \<^verbatim>\<open>super().__new__(cls)\<close> and names
  the next one; \<open>opened\<close> lists the connection strings \<^verbatim>\<open>MongoClient\<close> was
  called with, in order. The constructor of the client is a parameter \<open>mk\<close>.
\<close>

datatype handle = Obj nat

record 'c class_state =
  cls_instance :: "handle option"
  cls_client :: "'c option"
  cls_db :: "('c \<times> string) option"
  allocated :: nat
  opened :: "string list"

definition class_start :: "'c class_state" where
  "class_start = \<lparr>cls_instance = None, cls_client = None, cls_db = None, allocated = 0, opened = []\<rparr>"

definition MongoHandler_new ::
  "(string \<Rightarrow> error + 'c) \<Rightarrow> 'c class_state \<Rightarrow> string \<Rightarrow> (error + handle) \<times> 'c class_state" where
  "MongoHandler_new mk st uri =
     (case cls_instance st of
        None \<Rightarrow>
          (let h = Obj (allocated st);
               st1 = st\<lparr>cls_instance := Some h, allocated := Suc (allocated st),
                        opened := opened st @ [uri]\<rparr>
           in case mk uri of
                Inl e \<Rightarrow> (Inl e, st1)
              | Inr c \<Rightarrow> (Inr h, st1\<lparr>cls_client := Some c, cls_db := Some (c, ''askage'')\<rparr>))
      | Some h \<Rightarrow> (Inr h, st))"

text \<open>A sequence of calls, one connection string each: the results and the final state.\<close>

fun MongoHandler_calls ::
  "(string \<Rightarrow> error + 'c) \<Rightarrow> 'c class_state \<Rightarrow> string list \<Rightarrow> (error + handle) list \<times> 'c class_state" where
  "MongoHandler_calls mk st [] = ([], st)"
| "MongoHandler_calls mk st (uri # uris) =
     (let (r, st1) = MongoHandler_new mk st uri;
          (rs, st2) = MongoHandler_calls mk st1 uris
      in (r # rs, st2))"

subsection \<open>The database of the handler\<close>

text \<open>
  Every method reaches the store through \<^verbatim>\<open>self.db\<close>, the class attribute
  \<^verbatim>\<open>db\<close>: it is None until a client was created, and then the database
  \<^verbatim>\<open>askage\<close>. The methods below take it as \<open>db\<close>, None or the content of
  the database, and those that write return it with the result. Subscripting None
  raises the \<^verbatim>\<open>TypeError\<close> \<open>NoneNotSubscriptable\<close>.
\<close>

subsection \<open>Users and session tokens\<close>

text \<open>\<^verbatim>\<open>secrets.token_hex(16)\<close>: \<open>rnd\<close> is the 16 bytes drawn from the system.\<close>

definition generate_session_token :: "128 word \<Rightarrow> string" where
  "generate_session_token rnd = hexlify (to_bytes 16 (unat rnd))"

text \<open>
  \<open>rnd\<close> is the randomness of the token, \<open>new_id\<close> the identifier the driver generates
  if a document is inserted. The result is the credential or the exception, and the
  database after the call. A document that was found has an identifier, so as a
  dictionary it is not empty and \<^verbatim>\<open>if existing_user:\<close> tests that it was found.
\<close>

definition register_google_user ::
  "database option \<Rightarrow> 128 word \<Rightarrow> objectid \<Rightarrow> string \<Rightarrow> string \<Rightarrow>
   (error + string) \<times> database option" where
  "register_google_user db rnd new_id google_sub email =
     (if google_sub = [] \<or> email = [] then (Inl BareException, db)
      else
        (case db of
           None \<Rightarrow> (Inl NoneNotSubscriptable, db)
         | Some d \<Rightarrow>
        (let session_token = generate_session_token rnd
         in case find_one (users d) [(''google_sub'', Str google_sub)] of
              Some existing_user \<Rightarrow>
                (Inr (str_oid (doc_id existing_user) @ '':'' @ session_token),
                 Some (d\<lparr>users := snd (update_one (users d)
                      [(''_id'', OId (binary (doc_id existing_user)))]
                      [(''session_token'', Str session_token), (''email'', Str email)])\<rparr>))
            | None \<Rightarrow>
                (case insert_one (users d) new_id
                        [(''google_sub'', Str google_sub),
                         (''session_token'', Str session_token),
                         (''email'', Str email)] of
                   Inl e \<Rightarrow> (Inl e, db)
                 | Inr (inserted_id, us) \<Rightarrow>
                     (Inr (str_oid inserted_id @ '':'' @ session_token),
                      Some (d\<lparr>users := us\<rparr>))))))"

definition verify_auth_token :: "database option \<Rightarrow> string \<Rightarrow> string \<Rightarrow> error + bool" where
  "verify_auth_token db user_id session_token =
     (case db of
        None \<Rightarrow> Inl NoneNotSubscriptable
      | Some d \<Rightarrow>
     (case ObjectId user_id of
        Inl e \<Rightarrow> Inl e
      | Inr oid \<Rightarrow>
          (case find_one (users d) [(''_id'', OId oid)] of
             None \<Rightarrow> Inr False
           | Some user_doc \<Rightarrow>
               Inr ((case doc_get user_doc ''session_token'' of
                       None \<Rightarrow> Str ''''
                     | Some v \<Rightarrow> v) = Str session_token))))"

text \<open>The two parts of a credential, before and after its first colon.\<close>

definition credential_user_id :: "string \<Rightarrow> string" where
  "credential_user_id cred = takeWhile (\<lambda>c. c \<noteq> CHR '':'') cred"

definition credential_token :: "string \<Rightarrow> string" where
  "credential_token cred = drop 1 (dropWhile (\<lambda>c. c \<noteq> CHR '':'') cred)"

subsection \<open>Conversations\<close>

definition system_message :: bson where
  "system_message = Doc
     [(''role'', Str ''system''),
      (''content'', Str ''You are Askage, a Chrome extension that answers user questions based on webpage content. Always be polite, but reply with only the necessary information. Use minimal words, avoid complete sentences unless required. No explanations unless asked. Use plain text, no markdown or formatting. Paragraph form only. No bullet points, no lists.'')]"

definition new_conversation ::
  "database option \<Rightarrow> objectid \<Rightarrow> string \<Rightarrow> string list \<Rightarrow>
   (error + string) \<times> database option" where
  "new_conversation db new_id user_id suggestions =
     (case db of
        None \<Rightarrow> (Inl (Wrapped ''MongoDB error: '' NoneNotSubscriptable), db)
      | Some d \<Rightarrow>
     (case insert_one (conversations d) new_id
             [(''user_id'', Str user_id),
              (''history'', Arr [system_message]),
              (''prompt_suggestions'', Arr (map Str suggestions))] of
        Inl e \<Rightarrow> (Inl (Wrapped ''MongoDB error: '' e), db)
      | Inr (inserted_id, cs) \<Rightarrow>
          (Inr (str_oid inserted_id), Some (d\<lparr>conversations := cs\<rparr>))))"

text \<open>
  The lookup shared by the four operations below, inside their \<^verbatim>\<open>try\<close>: the
  collection of \<^verbatim>\<open>self.db\<close>, then \<^verbatim>\<open>ObjectId(conversation_id)\<close>, then
  \<^verbatim>\<open>find_one\<close>. And \<^verbatim>\<open>result[key]\<close> on what it returns: None is not
  subscriptable, a dictionary may lack the key.
\<close>

definition find_conversation ::
  "database option \<Rightarrow> string \<Rightarrow> string \<Rightarrow> error + stored_doc option" where
  "find_conversation db user_id conversation_id =
     (case db of
        None \<Rightarrow> Inl NoneNotSubscriptable
      | Some d \<Rightarrow>
     (case ObjectId conversation_id of
        Inl e \<Rightarrow> Inl e
      | Inr oid \<Rightarrow>
          Inr (find_one (conversations d) [(''_id'', OId oid), (''user_id'', Str user_id)])))"

definition subscript :: "stored_doc option \<Rightarrow> string \<Rightarrow> error + bson" where
  "subscript result k =
     (case result of
        None \<Rightarrow> Inl NoneNotSubscriptable
      | Some doc \<Rightarrow> (case doc_get doc k of None \<Rightarrow> Inl (KeyError k) | Some v \<Rightarrow> Inr v))"

definition get_prompt_suggestions :: "database option \<Rightarrow> string \<Rightarrow> string \<Rightarrow> error + bson" where
  "get_prompt_suggestions db user_id conversation_id =
     (case find_conversation db user_id conversation_id of
        Inl e \<Rightarrow> Inl (Wrapped ''MongoDB error: '' e)
      | Inr result \<Rightarrow>
          (case subscript result ''prompt_suggestions'' of
             Inl e \<Rightarrow> Inl (Wrapped ''MongoDB error: '' e)
           | Inr v \<Rightarrow> Inr v))"

definition get_chat_history :: "database option \<Rightarrow> string \<Rightarrow> string \<Rightarrow> error + bson" where
  "get_chat_history db user_id conversation_id =
     (case find_conversation db user_id conversation_id of
        Inl e \<Rightarrow> Inl (Wrapped ''MongoDB error: '' e)
      | Inr result \<Rightarrow>
          (case subscript result ''history'' of
             Inl e \<Rightarrow> Inl (Wrapped ''MongoDB error: '' e)
           | Inr v \<Rightarrow> Inr v))"

definition update_chat_history ::
  "database option \<Rightarrow> string \<Rightarrow> string \<Rightarrow> bson list \<Rightarrow> (error + bool) \<times> database option" where
  "update_chat_history db user_id conversation_id history =
     (case db of
        None \<Rightarrow> (Inl (Wrapped ''MongoDB error: '' NoneNotSubscriptable), db)
      | Some d \<Rightarrow>
     (case ObjectId conversation_id of
        Inl e \<Rightarrow> (Inl (Wrapped ''MongoDB error: '' e), db)
      | Inr oid \<Rightarrow>
          (let result = update_one (conversations d)
                          [(''_id'', OId oid), (''user_id'', Str user_id)]
                          [(''history'', Arr history)]
           in (Inr (fst result > 0), Some (d\<lparr>conversations := snd result\<rparr>)))))"

definition verify_conversation :: "database option \<Rightarrow> string \<Rightarrow> string \<Rightarrow> error + bool" where
  "verify_conversation db user_id conversation_id =
     (case find_conversation db user_id conversation_id of
        Inl e \<Rightarrow> Inl (Wrapped ''Error: '' e)
      | Inr result \<Rightarrow> Inr (result \<noteq> None))"

section \<open>Properties of the hexadecimal text\<close>

lemma hex_val_digit: "n < 16 \<Longrightarrow> hex_val (hex_digit n) = Some n"
  by (auto simp: hex_val_def hex_digit_def Let_def)

lemma hex_digit_not_space: "n < 16 \<Longrightarrow> \<not> is_space (hex_digit n)"
  by (auto simp: is_space_def hex_digit_def Let_def)

lemma hex_digit_not_colon: "n < 16 \<Longrightarrow> hex_digit n \<noteq> CHR '':''"
proof
  assume "n < 16" and "hex_digit n = CHR '':''"
  then have "hex_val CHR '':'' = Some n" using hex_val_digit [of n] by simp
  then show False by (simp add: hex_val_def)
qed

lemma nibbles: "unat (b :: byte) div 16 < 16" "unat b mod 16 < 16"
  using unsigned_less [of b, where 'a = nat] by simp_all

lemma byte_of_nibbles: "(of_nat (unat b div 16 * 16 + unat b mod 16) :: byte) = b"
  by simp

lemma length_to_bytes: "length (to_bytes k n) = k"
  by (induction k arbitrary: n) auto

lemma length_hexlify: "length (hexlify bs) = 2 * length bs"
  by (induction bs) (auto simp: hexlify_def)

lemma hexlify_Cons:
  "hexlify (b # bs) = hex_digit (unat b div 16) # hex_digit (unat b mod 16) # hexlify bs"
  by (simp add: hexlify_def)

text \<open>The text of a block of bytes is read back as the bytes.\<close>

lemma fromhex_hexlify: "fromhex (hexlify bs) = Some bs"
proof (induction bs)
  case Nil
  show ?case by (simp add: hexlify_def)
next
  case (Cons b bs)
  show ?case
    by (simp add: hexlify_Cons hex_digit_not_space hex_val_digit nibbles Cons.IH
        del: of_nat_add of_nat_mult)
qed


lemma to_bytes_inj: "to_bytes k n = to_bytes k m \<Longrightarrow> n mod 256 ^ k = m mod 256 ^ k"
proof (induction k arbitrary: n m)
  case 0
  show ?case by simp
next
  case (Suc k)
  from Suc.prems have hi: "to_bytes k (n div 256) = to_bytes k (m div 256)"
    and lo: "(of_nat (n mod 256) :: byte) = of_nat (m mod 256)"
    by (simp_all add: length_to_bytes)
  from lo have "unat (of_nat (n mod 256) :: byte) = unat (of_nat (m mod 256) :: byte)"
    by simp
  then have l: "n mod 256 = m mod 256"
    by (simp add: unat_of_nat)
  from Suc.IH [OF hi] have h: "n div 256 mod 256 ^ k = m div 256 mod 256 ^ k" .
  have "\<And>x::nat. x mod 256 ^ Suc k = (x div 256 mod 256 ^ k) * 256 + x mod 256"
    by (simp add: mod_mult2_eq)
  with l h show ?case by simp
qed

lemma binary_inj: "binary a = binary b \<Longrightarrow> a = b"
proof -
  assume "binary a = binary b"
  then have "unat a mod 256 ^ 12 = unat b mod 256 ^ 12"
    unfolding binary_def by (rule to_bytes_inj)
  moreover have "unat a < 256 ^ 12" "unat b < 256 ^ 12"
    using unsigned_less [of a, where 'a = nat] unsigned_less [of b, where 'a = nat] by simp_all
  ultimately show ?thesis by (simp add: word_unat_eq_iff)
qed

lemma binary_eq_iff: "(binary a = binary b) = (a = b)"
  by (auto dest: binary_inj)

lemma length_binary: "length (binary oid) = 12"
  by (simp add: binary_def length_to_bytes)

text \<open>The text of an identifier is read back as the identifier.\<close>

lemma ObjectId_str_oid: "ObjectId (str_oid oid) = Inr (binary oid)"
  by (simp add: ObjectId_def str_oid_def length_hexlify length_binary fromhex_hexlify)


lemma hexlify_no_colon: "CHR '':'' \<notin> set (hexlify bs)"
proof (induction bs)
  case Nil
  show ?case by (simp add: hexlify_def)
next
  case (Cons b bs)
  have "CHR '':'' \<noteq> hex_digit (unat b div 16)" "CHR '':'' \<noteq> hex_digit (unat b mod 16)"
    using hex_digit_not_colon [OF nibbles(1), of b] hex_digit_not_colon [OF nibbles(2), of b]
    by (auto dest: not_sym)
  with Cons.IH show ?case by (simp add: hexlify_Cons)
qed

lemma credential_user_id_eq: "credential_user_id (hexlify bs @ CHR '':'' # t) = hexlify bs"
  unfolding credential_user_id_def
  by (subst takeWhile_append2) (use hexlify_no_colon in auto)

lemma credential_token_eq: "credential_token (hexlify bs @ CHR '':'' # t) = t"
  unfolding credential_token_def
  by (subst dropWhile_append2) (use hexlify_no_colon in auto)

section \<open>Properties of the store\<close>

subsection \<open>Filters\<close>

lemma value_matches_Str: "value_matches (Str a) (Str b) = (a = b)"
  by (simp add: value_matches_def)

lemma matches_id: "matches [(''_id'', OId bs)] d = (binary (doc_id d) = bs)"
  by (simp add: matches_def doc_get_def value_matches_def)

lemma matches_google_sub:
  "matches [(''google_sub'', Str g)] d =
     (case map_of (body d) ''google_sub'' of None \<Rightarrow> False | Some v \<Rightarrow> value_matches v (Str g))"
  by (simp add: matches_def doc_get_def)

lemma matches_conversation:
  "matches [(''_id'', OId bs), (''user_id'', Str u)] d =
     (binary (doc_id d) = bs \<and>
      (case map_of (body d) ''user_id'' of None \<Rightarrow> False | Some v \<Rightarrow> value_matches v (Str u)))"
  by (simp add: matches_def doc_get_def value_matches_def)

lemma find_one_None: "(find_one c f = None) = (\<forall>d \<in> set c. \<not> matches f d)"
  by (auto simp: find_one_def find_None_iff)

lemma find_one_Some: "find_one c f = Some d \<Longrightarrow> d \<in> set c \<and> matches f d"
  by (auto simp: find_one_def find_Some_iff)

lemma find_one_snoc:
  "find_one (c @ [n]) f =
     (case find_one c f of Some d \<Rightarrow> Some d | None \<Rightarrow> if matches f n then Some n else None)"
  by (induction c) (auto simp: find_one_def)

lemma find_one_by_id:
  "distinct (map doc_id c) \<Longrightarrow> d \<in> set c \<Longrightarrow>
   find_one c [(''_id'', OId (binary (doc_id d)))] = Some d"
  by (induction c) (auto simp: find_one_def matches_id binary_eq_iff)

lemma filter_find_one_None: "find_one c f = None \<Longrightarrow> filter (matches f) c = []"
  by (simp add: find_one_None filter_empty_conv)


subsection \<open>Updates\<close>

lemma doc_id_apply_set: "doc_id (apply_set s d) = doc_id d"
  by (simp add: apply_set_def)

lemma update_one_unmatched: "find_one c f = None \<Longrightarrow> update_one c f s = (0, c)"
  by (induction c) (auto simp: find_one_def split: if_splits)

lemma update_one_matched: "(0 < fst (update_one c f s)) = (find_one c f \<noteq> None)"
  by (induction c) (auto simp: find_one_def)

text \<open>
  An update that leaves the fields of a filter alone keeps what the filter finds: the
  same document, updated, for the filter of the update itself, and a document with the
  same identifier for any other filter.
\<close>

lemma find_one_update_one_same:
  assumes "\<And>d. matches f (apply_set s d) = matches f d"
  shows "find_one (snd (update_one c f s)) f = map_option (apply_set s) (find_one c f)"
  using assms by (induction c) (auto simp: find_one_def)

lemma find_one_update_one_id:
  assumes "\<And>d. matches g (apply_set s d) = matches g d"
  shows "map_option doc_id (find_one (snd (update_one c f s)) g) = map_option doc_id (find_one c g)"
  using assms by (induction c) (auto simp: find_one_def doc_id_apply_set)

lemma count_update_one:
  assumes "\<And>d. matches g (apply_set s d) = matches g d"
  shows "length (filter (matches g) (snd (update_one c f s))) = length (filter (matches g) c)"
  using assms by (induction c) auto

lemma set_history_keeps_filter:
  "matches [(''_id'', OId bs), (''user_id'', Str u)] (apply_set [(''history'', v)] d) =
   matches [(''_id'', OId bs), (''user_id'', Str u)] d"
  by (simp add: matches_conversation apply_set_def update_conv')

lemma login_keeps_id_filter:
  "matches [(''_id'', OId bs)] (apply_set [(''session_token'', a), (''email'', b)] d) =
   matches [(''_id'', OId bs)] d"
  by (simp add: matches_id apply_set_def)

lemma login_keeps_google_sub:
  "matches [(''google_sub'', Str g)] (apply_set [(''session_token'', a), (''email'', b)] d) =
   matches [(''google_sub'', Str g)] d"
  by (simp add: matches_google_sub apply_set_def update_conv')

subsection \<open>Identifiers stay distinct\<close>

text \<open>
  The store keeps the identifiers of a collection distinct: an insertion refuses a taken
  identifier and an update changes none. Theorems below that speak of the document
  with a given identifier assume it of the starting state.
\<close>

lemma ids_update_one: "map doc_id (snd (update_one c f s)) = map doc_id c"
  by (induction c) (auto simp: doc_id_apply_set)

lemma ids_insert_one:
  "insert_one c n b = Inr (i, c') \<Longrightarrow> distinct (map doc_id c) \<Longrightarrow> distinct (map doc_id c')"
  by (auto simp: insert_one_def split: if_splits)

lemma ids_new_conversation:
  assumes "distinct (map doc_id (conversations d))"
    and "snd (new_conversation (Some d) n u s) = Some d'"
  shows "distinct (map doc_id (conversations d'))"
  using assms by (auto simp: new_conversation_def insert_one_def split: if_splits)

lemma ids_update_chat_history:
  assumes "distinct (map doc_id (conversations d))"
    and "snd (update_chat_history (Some d) u cid H) = Some d'"
  shows "distinct (map doc_id (conversations d'))"
  using assms by (auto simp: update_chat_history_def Let_def ids_update_one split: sum.splits)

lemma ids_register_google_user:
  assumes "distinct (map doc_id (users d))"
    and "snd (register_google_user (Some d) rnd n g e) = Some d'"
  shows "distinct (map doc_id (users d'))"
  using assms
  by (auto simp: register_google_user_def Let_def insert_one_def ids_update_one
      split: option.splits if_splits)

text \<open>A database that is there stays there, and one that is missing stays missing.\<close>

lemma register_google_user_None:
  "snd (register_google_user None rnd n g e) = None"
  by (simp add: register_google_user_def)

lemma returns_needs_database:
  "register_google_user db rnd n g e = (Inr cred, db') \<Longrightarrow> \<exists>d d'. db = Some d \<and> db' = Some d'"
  "new_conversation db n u s = (Inr cid, db') \<Longrightarrow> \<exists>d d'. db = Some d \<and> db' = Some d'"
  by (auto simp: register_google_user_def new_conversation_def Let_def
      split: if_splits option.splits sum.splits)

section \<open>Ownership-scoped access\<close>

lemma find_conversation_unmatched:
  assumes "ObjectId cid = Inr bs"
    and "\<forall>c \<in> set (conversations d). \<not> matches [(''_id'', OId bs), (''user_id'', Str u)] c"
  shows "find_conversation (Some d) u cid = Inr None"
  using assms by (simp add: find_conversation_def find_one_None)

text \<open>The conversation of another user matches no lookup, and neither does an unused identifier.\<close>

lemma foreign_unmatched:
  assumes "distinct (map doc_id cs)" and "c \<in> set cs"
    and "map_of (body c) ''user_id'' = Some (Str owner)" and "other \<noteq> owner"
  shows "\<forall>x \<in> set cs. \<not> matches [(''_id'', OId (binary (doc_id c))), (''user_id'', Str other)] x"
proof
  fix x assume x: "x \<in> set cs"
  show "\<not> matches [(''_id'', OId (binary (doc_id c))), (''user_id'', Str other)] x"
  proof
    assume m: "matches [(''_id'', OId (binary (doc_id c))), (''user_id'', Str other)] x"
    then have "doc_id x = doc_id c" by (simp add: matches_conversation binary_eq_iff)
    with assms(1,2) x have "x = c"
      by (meson distinct_map inj_on_def)
    with m assms(3,4) show False
      by (simp add: matches_conversation value_matches_Str)
  qed
qed

lemma missing_unmatched:
  assumes "bs \<notin> binary ` doc_id ` set cs"
  shows "\<forall>x \<in> set cs. \<not> matches [(''_id'', OId bs), (''user_id'', Str u)] x"
  using assms by (auto simp: matches_conversation)

text \<open>
  C1. The claim fails for an identifier that \<^verbatim>\<open>ObjectId\<close> rejects, which is the
  identifier of no conversation: \<open>verify_conversation\<close> does not return False there, it
  raises, as its docstring says, and \<open>get_chat_history\<close> raises an exception that
  carries \<^verbatim>\<open>InvalidId\<close>, not the one of a lookup that finds nothing.
\<close>

theorem verify_conversation_malformed_id_raises:
  "verify_conversation
     (Some \<lparr>users = [], conversations =
        [\<lparr>doc_id = 1, body = [(''user_id'', Str ''alice''), (''history'', Arr [system_message]),
                               (''prompt_suggestions'', Arr [])]\<rparr>]\<rparr>)
     ''bob'' ''abc'' = Inl (Wrapped ''Error: '' (InvalidId ''abc''))
   \<and> get_chat_history
     (Some \<lparr>users = [], conversations =
        [\<lparr>doc_id = 1, body = [(''user_id'', Str ''alice''), (''history'', Arr [system_message]),
                               (''prompt_suggestions'', Arr [])]\<rparr>]\<rparr>)
     ''bob'' ''abc'' = Inl (Wrapped ''MongoDB error: '' (InvalidId ''abc''))"
  by (simp add: verify_conversation_def get_chat_history_def find_conversation_def ObjectId_def)

text \<open>
  C1, for identifiers that \<^verbatim>\<open>ObjectId\<close> accepts. Let \<open>c\<close> be a stored
  conversation of \<open>owner\<close>, \<open>cid\<close> a text of its identifier and \<open>other\<close> a different
  user, and let \<open>missing\<close> be a text that \<^verbatim>\<open>ObjectId\<close> accepts and that is the
  identifier of no stored conversation. Then \<open>get_chat_history\<close> and
  \<open>get_prompt_suggestions\<close> fail for \<open>other\<close> on \<open>cid\<close> with exactly the generic
  exception they raise on \<open>missing\<close>, and \<open>verify_conversation\<close> returns False in
  both cases: the two cases cannot be told apart. On a text \<open>bad\<close> that
  \<^verbatim>\<open>ObjectId\<close> rejects, all three raise a generic exception that carries the
  exception of \<^verbatim>\<open>ObjectId\<close>; and a handler without a database raises on
  every identifier.
\<close>

theorem foreign_conversation_as_missing:
  assumes "distinct (map doc_id (conversations d))"
    and "c \<in> set (conversations d)"
    and "map_of (body c) ''user_id'' = Some (Str owner)"
    and "other \<noteq> owner"
    and "ObjectId cid = Inr (binary (doc_id c))"
    and "ObjectId missing = Inr mbs"
    and "mbs \<notin> binary ` doc_id ` set (conversations d)"
    and "ObjectId bad = Inl e"
  shows "get_chat_history (Some d) other cid =
           Inl (Wrapped ''MongoDB error: '' NoneNotSubscriptable)
       \<and> get_chat_history (Some d) u missing =
           Inl (Wrapped ''MongoDB error: '' NoneNotSubscriptable)
       \<and> get_prompt_suggestions (Some d) other cid =
           Inl (Wrapped ''MongoDB error: '' NoneNotSubscriptable)
       \<and> get_prompt_suggestions (Some d) u missing =
           Inl (Wrapped ''MongoDB error: '' NoneNotSubscriptable)
       \<and> verify_conversation (Some d) other cid = Inr False
       \<and> verify_conversation (Some d) u missing = Inr False
       \<and> get_chat_history (Some d) u bad = Inl (Wrapped ''MongoDB error: '' e)
       \<and> get_prompt_suggestions (Some d) u bad = Inl (Wrapped ''MongoDB error: '' e)
       \<and> verify_conversation (Some d) u bad = Inl (Wrapped ''Error: '' e)
       \<and> verify_conversation None u missing = Inl (Wrapped ''Error: '' NoneNotSubscriptable)"
proof -
  have f: "find_conversation (Some d) other cid = Inr None"
    using foreign_unmatched [OF assms(1-4)] assms(5)
    by (intro find_conversation_unmatched) simp_all
  have m: "find_conversation (Some d) u missing = Inr None"
    using missing_unmatched [OF assms(7)] assms(6)
    by (intro find_conversation_unmatched) simp_all
  have b: "find_conversation (Some d) u bad = Inl e"
    using assms(8) by (simp add: find_conversation_def)
  have n: "find_conversation None u missing = Inl NoneNotSubscriptable"
    by (simp add: find_conversation_def)
  show ?thesis
    by (simp add: get_chat_history_def get_prompt_suggestions_def verify_conversation_def
        subscript_def f m b n)
qed

theorem foreign_conversation_as_missing_witness:
  "get_chat_history
     (Some \<lparr>users = [], conversations =
        [\<lparr>doc_id = 1, body = [(''user_id'', Str ''alice''), (''history'', Arr [system_message]),
                               (''prompt_suggestions'', Arr [])]\<rparr>]\<rparr>)
     ''bob'' (str_oid 1) = Inl (Wrapped ''MongoDB error: '' NoneNotSubscriptable)
   \<and> get_chat_history
     (Some \<lparr>users = [], conversations =
        [\<lparr>doc_id = 1, body = [(''user_id'', Str ''alice''), (''history'', Arr [system_message]),
                               (''prompt_suggestions'', Arr [])]\<rparr>]\<rparr>)
     ''bob'' (str_oid 2) = Inl (Wrapped ''MongoDB error: '' NoneNotSubscriptable)
   \<and> verify_conversation
     (Some \<lparr>users = [], conversations =
        [\<lparr>doc_id = 1, body = [(''user_id'', Str ''alice''), (''history'', Arr [system_message]),
                               (''prompt_suggestions'', Arr [])]\<rparr>]\<rparr>)
     ''bob'' (str_oid 1) = Inr False
   \<and> verify_conversation
     (Some \<lparr>users = [], conversations =
        [\<lparr>doc_id = 1, body = [(''user_id'', Str ''alice''), (''history'', Arr [system_message]),
                               (''prompt_suggestions'', Arr [])]\<rparr>]\<rparr>)
     ''bob'' ''abc'' = Inl (Wrapped ''Error: '' (InvalidId ''abc''))"
  using foreign_conversation_as_missing [of "\<lparr>users = [], conversations =
        [\<lparr>doc_id = 1, body = [(''user_id'', Str ''alice''), (''history'', Arr [system_message]),
                               (''prompt_suggestions'', Arr [])]\<rparr>]\<rparr>"
      "\<lparr>doc_id = 1, body = [(''user_id'', Str ''alice''), (''history'', Arr [system_message]),
                               (''prompt_suggestions'', Arr [])]\<rparr>"
      "''alice''" "''bob''" "str_oid 1" "str_oid 2" "binary 2" "''abc''" "InvalidId ''abc''" "''bob''"]
  by (simp add: ObjectId_str_oid binary_eq_iff) (simp add: ObjectId_def)

section \<open>Verifying a session token\<close>

lemma verify_unknown_id:
  "ObjectId uid = Inr bs \<Longrightarrow> bs \<notin> binary ` doc_id ` set (users d) \<Longrightarrow>
   verify_auth_token (Some d) uid t = Inr False"
  by (auto simp: verify_auth_token_def matches_id dest!: find_one_Some split: option.splits)

lemma verify_rejected_id:
  "ObjectId uid = Inl e \<Longrightarrow> verify_auth_token (Some d) uid t = Inl e"
  by (simp add: verify_auth_token_def)

text \<open>
  C2. \<open>verify_auth_token\<close> does not return False for every input: the constructor
  \<^verbatim>\<open>ObjectId(user_id)\<close> is called outside any \<^verbatim>\<open>try\<close>, so a \<open>user_id\<close>
  that it rejects raises \<^verbatim>\<open>InvalidId\<close>.
\<close>

theorem verify_auth_token_malformed_id_raises:
  "verify_auth_token (Some \<lparr>users = [], conversations = []\<rparr>) ''abc'' ''t'' =
     Inl (InvalidId ''abc'')"
  by (simp add: verify_auth_token_def ObjectId_def)

text \<open>
  C2, what holds. \<open>verify_auth_token\<close> returns a truth value exactly when the handler
  has a database and \<^verbatim>\<open>ObjectId\<close> accepts \<open>user_id\<close>; the value is False when no
  user has the identifier parsed. Without a database it raises the
  \<^verbatim>\<open>TypeError\<close> of subscripting None, and with one it raises the exception of
  \<^verbatim>\<open>ObjectId\<close> for a \<open>user_id\<close> that \<^verbatim>\<open>ObjectId\<close> rejects.
\<close>

theorem verify_auth_token_results:
  "((\<exists>b. verify_auth_token db uid t = Inr b) = (db \<noteq> None \<and> (\<exists>bs. ObjectId uid = Inr bs)))
   \<and> (\<forall>d bs. db = Some d \<and> ObjectId uid = Inr bs \<and> bs \<notin> binary ` doc_id ` set (users d) \<longrightarrow>
         verify_auth_token db uid t = Inr False)
   \<and> (\<forall>d e. db = Some d \<and> ObjectId uid = Inl e \<longrightarrow> verify_auth_token db uid t = Inl e)
   \<and> (db = None \<longrightarrow> verify_auth_token db uid t = Inl NoneNotSubscriptable)"
proof -
  have "(\<exists>b. verify_auth_token db uid t = Inr b) = (db \<noteq> None \<and> (\<exists>bs. ObjectId uid = Inr bs))"
    by (cases db; cases "ObjectId uid")
       (auto simp: verify_auth_token_def split: option.splits)
  moreover have "db = None \<longrightarrow> verify_auth_token db uid t = Inl NoneNotSubscriptable"
    by (simp add: verify_auth_token_def)
  ultimately show ?thesis
    using verify_unknown_id [of uid _ _ t] verify_rejected_id [of uid _ _ t] by blast
qed

theorem verify_auth_token_results_witness:
  "verify_auth_token (Some \<lparr>users = [], conversations = []\<rparr>) (str_oid 7) ''t'' = Inr False
   \<and> verify_auth_token (Some \<lparr>users = [], conversations = []\<rparr>)
        ''00 00 00 00 00 00 00 00 '' ''t'' = Inr False
   \<and> verify_auth_token (Some \<lparr>users = [], conversations = []\<rparr>) ''abc'' ''t'' =
        Inl (InvalidId ''abc'')
   \<and> verify_auth_token None (str_oid 7) ''t'' = Inl NoneNotSubscriptable"
proof -
  let ?d = "\<lparr>users = [], conversations = []\<rparr>"
  have ws: "ObjectId ''00 00 00 00 00 00 00 00 '' = Inr [0, 0, 0, 0, 0, 0, 0, 0]"
    by (simp add: ObjectId_def is_space_def hex_val_def)
  have bad: "ObjectId ''abc'' = Inl (InvalidId ''abc'')"
    by (simp add: ObjectId_def)
  from verify_auth_token_results [of "Some ?d" "str_oid 7" "''t''"]
  have a: "verify_auth_token (Some ?d) (str_oid 7) ''t'' = Inr False"
    by (simp add: ObjectId_str_oid)
  from verify_auth_token_results [of "Some ?d" "''00 00 00 00 00 00 00 00 ''" "''t''"] ws
  have b: "verify_auth_token (Some ?d) ''00 00 00 00 00 00 00 00 '' ''t'' = Inr False"
    by simp
  from verify_auth_token_results [of "Some ?d" "''abc''" "''t''"] bad
  have c: "verify_auth_token (Some ?d) ''abc'' ''t'' = Inl (InvalidId ''abc'')"
    by simp
  from verify_auth_token_results [of None "str_oid 7" "''t''"]
  have d: "verify_auth_token None (str_oid 7) ''t'' = Inl NoneNotSubscriptable"
    by simp
  from a b c d show ?thesis by simp
qed

text \<open>
  C10. For a stored user document without a \<^verbatim>\<open>session_token\<close> field and any
  text \<open>uid\<close> of its identifier, \<open>verify_auth_token\<close> returns True on the empty
  token: the comparison reads the missing field as the empty string.
\<close>

theorem verify_auth_token_empty_token_when_field_missing:
  assumes "distinct (map doc_id (users d))"
    and "x \<in> set (users d)"
    and "map_of (body x) ''session_token'' = None"
    and "ObjectId uid = Inr (binary (doc_id x))"
  shows "verify_auth_token (Some d) uid '''' = Inr True"
  using assms
  by (simp add: verify_auth_token_def find_one_by_id doc_get_def)

theorem verify_auth_token_empty_token_when_field_missing_witness:
  "verify_auth_token
     (Some \<lparr>users = [\<lparr>doc_id = 4, body = [(''google_sub'', Str ''sub-1''),
                                     (''email'', Str ''a@example.org'')]\<rparr>],
      conversations = []\<rparr>) (str_oid 4) '''' = Inr True"
  using verify_auth_token_empty_token_when_field_missing
    [of "\<lparr>users = [\<lparr>doc_id = 4, body = [(''google_sub'', Str ''sub-1''),
                                     (''email'', Str ''a@example.org'')]\<rparr>],
      conversations = []\<rparr>"
      "\<lparr>doc_id = 4, body = [(''google_sub'', Str ''sub-1''), (''email'', Str ''a@example.org'')]\<rparr>"
      "str_oid 4"]
  by (simp add: ObjectId_str_oid)

section \<open>Registration and login\<close>

text \<open>What a successful call of \<open>register_google_user\<close> returns and leaves behind.\<close>

lemma register_google_user_returns:
  assumes "register_google_user db rnd new_id g e = (Inr cred, db')"
  defines "f \<equiv> [(''google_sub'', Str g)]"
  shows "\<exists>d d' oid x. db = Some d \<and> db' = Some d'
           \<and> cred = str_oid oid @ '':'' @ generate_session_token rnd
           \<and> find_one (users d') [(''_id'', OId (binary oid))] = Some x
           \<and> doc_get x ''session_token'' = Some (Str (generate_session_token rnd))
           \<and> map_option doc_id (find_one (users d') f) = Some oid
           \<and> (case find_one (users d) f of
                 None \<Rightarrow> length (filter (matches f) (users d')) = 1
               | Some ex \<Rightarrow> oid = doc_id ex
                   \<and> length (filter (matches f) (users d')) = length (filter (matches f) (users d)))
           \<and> conversations d' = conversations d"
proof -
  from assms(1) obtain d where db: "db = Some d"
    by (cases db) (auto simp: register_google_user_def split: if_splits)
  show ?thesis
  proof (cases "find_one (users d) f")
    case None
    let ?n = "\<lparr>doc_id = new_id,
               body = [(''google_sub'', Str g),
                       (''session_token'', Str (generate_session_token rnd)),
                       (''email'', Str e)]\<rparr>"
    let ?d' = "d\<lparr>users := users d @ [?n]\<rparr>"
    from assms(1) None have fresh: "new_id \<notin> doc_id ` set (users d)"
      and cred: "cred = str_oid new_id @ '':'' @ generate_session_token rnd"
      and d': "db' = Some ?d'"
      by (auto simp: db register_google_user_def f_def insert_one_def Let_def split: if_splits)
    have "find_one (users d) [(''_id'', OId (binary new_id))] = None"
      using fresh by (auto simp: find_one_None matches_id binary_eq_iff)
    then have a: "find_one (users ?d') [(''_id'', OId (binary new_id))] = Some ?n"
      by (simp add: find_one_snoc matches_id)
    have b: "doc_get ?n ''session_token'' = Some (Str (generate_session_token rnd))"
      by (simp add: doc_get_def)
    have m: "matches f ?n"
      by (simp add: f_def matches_google_sub value_matches_Str)
    have c: "map_option doc_id (find_one (users ?d') f) = Some new_id"
      by (simp add: find_one_snoc None m)
    have n: "length (filter (matches f) (users ?d')) = 1"
      by (simp add: filter_find_one_None [OF None] m)
    show ?thesis
      using cred a b c n db d'
      by (intro exI [of _ d] exI [of _ ?d'] exI [of _ new_id] exI [of _ ?n]) (simp add: None)
  next
    case (Some ex)
    let ?s = "[(''session_token'', Str (generate_session_token rnd)), (''email'', Str e)]"
    let ?i = "[(''_id'', OId (binary (doc_id ex)))]"
    let ?d' = "d\<lparr>users := snd (update_one (users d) ?i ?s)\<rparr>"
    from assms(1) Some have cred: "cred = str_oid (doc_id ex) @ '':'' @ generate_session_token rnd"
      and d': "db' = Some ?d'"
      by (auto simp: db register_google_user_def f_def Let_def split: if_splits)
    have "ex \<in> set (users d)"
      using Some by (auto dest: find_one_Some)
    then obtain x where x: "find_one (users d) ?i = Some x"
      by (cases "find_one (users d) ?i") (auto simp: find_one_None matches_id)
    have a: "find_one (users ?d') ?i = Some (apply_set ?s x)"
      by (simp add: find_one_update_one_same login_keeps_id_filter x)
    have b: "doc_get (apply_set ?s x) ''session_token'' = Some (Str (generate_session_token rnd))"
      by (simp add: doc_get_def apply_set_def update_conv')
    have c: "map_option doc_id (find_one (users ?d') f) = Some (doc_id ex)"
      unfolding f_def
      using find_one_update_one_id [of "[(''google_sub'', Str g)]" ?s "users d" ?i] Some
      by (simp add: login_keeps_google_sub f_def)
    have n: "length (filter (matches f) (users ?d')) = length (filter (matches f) (users d))"
      unfolding f_def by (simp add: count_update_one login_keeps_google_sub)
    show ?thesis
      using cred a b c n db d'
      by (intro exI [of _ d] exI [of _ ?d'] exI [of _ "doc_id ex"] exI [of _ "apply_set ?s x"])
         (simp add: Some)
  qed
qed

text \<open>
  C8. With an empty \<open>google_sub\<close> or an empty \<open>email\<close>, \<open>register_google_user\<close>
  raises its exception before it reads or writes the store: the database is unchanged.
\<close>

theorem register_google_user_rejects_empty:
  assumes "google_sub = [] \<or> email = []"
  shows "register_google_user db rnd new_id google_sub email = (Inl BareException, db)"
  using assms by (auto simp: register_google_user_def)

theorem register_google_user_rejects_empty_witness:
  "register_google_user
      (Some \<lparr>users = [\<lparr>doc_id = 9, body = [(''google_sub'', Str ''sub-1'')]\<rparr>], conversations = []\<rparr>)
      1 10 [] ''a@example.org'' =
     (Inl BareException,
      Some \<lparr>users = [\<lparr>doc_id = 9, body = [(''google_sub'', Str ''sub-1'')]\<rparr>], conversations = []\<rparr>)
   \<and> register_google_user
      (Some \<lparr>users = [\<lparr>doc_id = 9, body = [(''google_sub'', Str ''sub-1'')]\<rparr>], conversations = []\<rparr>)
      1 10 ''sub-1'' [] =
     (Inl BareException,
      Some \<lparr>users = [\<lparr>doc_id = 9, body = [(''google_sub'', Str ''sub-1'')]\<rparr>], conversations = []\<rparr>)"
  using register_google_user_rejects_empty
      [of "[]" "''a@example.org''"
        "Some \<lparr>users = [\<lparr>doc_id = 9, body = [(''google_sub'', Str ''sub-1'')]\<rparr>], conversations = []\<rparr>"
        1 10]
    register_google_user_rejects_empty
      [of "''sub-1''" "[]"
        "Some \<lparr>users = [\<lparr>doc_id = 9, body = [(''google_sub'', Str ''sub-1'')]\<rparr>], conversations = []\<rparr>"
        1 10]
  by simp

text \<open>
  C3. The claim fails for a \<open>user_id\<close> that \<^verbatim>\<open>ObjectId\<close> rejects, which is the
  identifier of no user: after a registration, \<open>verify_auth_token\<close> does not return
  False for it, it raises \<^verbatim>\<open>InvalidId\<close>.
\<close>

theorem verify_after_register_malformed_id_raises:
  "verify_auth_token
     (snd (register_google_user (Some \<lparr>users = [], conversations = []\<rparr>)
             5 9 ''sub-1'' ''a@example.org''))
     ''abc'' (generate_session_token 5) = Inl (InvalidId ''abc'')"
  by (simp add: register_google_user_def find_one_def insert_one_def Let_def
      verify_auth_token_def ObjectId_def)

text \<open>
  C3, for identifiers that \<^verbatim>\<open>ObjectId\<close> accepts. When \<open>register_google_user\<close>
  returns a credential, the credential is a user identifier, a colon and a session
  token; right after the call \<open>verify_auth_token\<close> returns True for that identifier
  and that token, False for that identifier and any other token, and False for every
  text that \<^verbatim>\<open>ObjectId\<close> accepts and that is the identifier of no user. For a
  text that \<^verbatim>\<open>ObjectId\<close> rejects it raises the exception of \<^verbatim>\<open>ObjectId\<close>.
\<close>

theorem verify_after_register:
  assumes "register_google_user db rnd new_id g e = (Inr cred, db')"
  shows "cred = credential_user_id cred @ '':'' @ credential_token cred
       \<and> verify_auth_token db' (credential_user_id cred) (credential_token cred) = Inr True
       \<and> (\<forall>t. t \<noteq> credential_token cred \<longrightarrow>
             verify_auth_token db' (credential_user_id cred) t = Inr False)
       \<and> (\<forall>uid bs t d'. db' = Some d' \<and> ObjectId uid = Inr bs
               \<and> bs \<notin> binary ` doc_id ` set (users d') \<longrightarrow>
             verify_auth_token db' uid t = Inr False)
       \<and> (\<forall>uid err t. ObjectId uid = Inl err \<longrightarrow> verify_auth_token db' uid t = Inl err)"
proof -
  from register_google_user_returns [OF assms]
  obtain d' oid x where d': "db' = Some d'"
    and cred: "cred = str_oid oid @ '':'' @ generate_session_token rnd"
    and x: "find_one (users d') [(''_id'', OId (binary oid))] = Some x"
    and tok: "doc_get x ''session_token'' = Some (Str (generate_session_token rnd))"
    by blast
  have u: "credential_user_id cred = str_oid oid"
    by (simp add: cred str_oid_def credential_user_id_eq)
  have t: "credential_token cred = generate_session_token rnd"
    by (simp add: cred str_oid_def credential_token_eq)
  have v: "verify_auth_token db' (str_oid oid) t = Inr (generate_session_token rnd = t)" for t
    by (simp add: d' verify_auth_token_def ObjectId_str_oid x tok)
  show ?thesis
    unfolding u t v
    using cred verify_unknown_id [of _ _ d'] verify_rejected_id [of _ _ d'] d' by auto
qed

theorem verify_after_register_witness:
  "register_google_user (Some \<lparr>users = [], conversations = []\<rparr>) 5 9 ''sub-1'' ''a@example.org'' =
     (Inr (str_oid 9 @ '':'' @ generate_session_token 5),
      Some \<lparr>users = [\<lparr>doc_id = 9, body = [(''google_sub'', Str ''sub-1''),
                    (''session_token'', Str (generate_session_token 5)),
                    (''email'', Str ''a@example.org'')]\<rparr>],
       conversations = []\<rparr>)
   \<and> verify_auth_token
      (Some \<lparr>users = [\<lparr>doc_id = 9, body = [(''google_sub'', Str ''sub-1''),
                    (''session_token'', Str (generate_session_token 5)),
                    (''email'', Str ''a@example.org'')]\<rparr>],
       conversations = []\<rparr>) (str_oid 9) (generate_session_token 5) = Inr True
   \<and> verify_auth_token
      (Some \<lparr>users = [\<lparr>doc_id = 9, body = [(''google_sub'', Str ''sub-1''),
                    (''session_token'', Str (generate_session_token 5)),
                    (''email'', Str ''a@example.org'')]\<rparr>],
       conversations = []\<rparr>) (str_oid 9) ''stale'' = Inr False
   \<and> verify_auth_token
      (Some \<lparr>users = [\<lparr>doc_id = 9, body = [(''google_sub'', Str ''sub-1''),
                    (''session_token'', Str (generate_session_token 5)),
                    (''email'', Str ''a@example.org'')]\<rparr>],
       conversations = []\<rparr>) (str_oid 8) (generate_session_token 5) = Inr False
   \<and> verify_auth_token
      (Some \<lparr>users = [\<lparr>doc_id = 9, body = [(''google_sub'', Str ''sub-1''),
                    (''session_token'', Str (generate_session_token 5)),
                    (''email'', Str ''a@example.org'')]\<rparr>],
       conversations = []\<rparr>) ''abc'' (generate_session_token 5) = Inl (InvalidId ''abc'')"
proof -
  let ?d = "\<lparr>users = [\<lparr>doc_id = 9, body = [(''google_sub'', Str ''sub-1''),
                    (''session_token'', Str (generate_session_token 5)),
                    (''email'', Str ''a@example.org'')]\<rparr>],
       conversations = []\<rparr>"
  have r: "register_google_user (Some \<lparr>users = [], conversations = []\<rparr>) 5 9 ''sub-1''
             ''a@example.org'' =
     (Inr (str_oid 9 @ '':'' @ generate_session_token 5), Some ?d)"
    by (simp add: register_google_user_def find_one_def insert_one_def Let_def)
  have u: "credential_user_id (str_oid 9 @ '':'' @ generate_session_token 5) = str_oid 9"
    by (simp add: str_oid_def credential_user_id_eq)
  have t: "credential_token (str_oid 9 @ '':'' @ generate_session_token 5) = generate_session_token 5"
    by (simp add: str_oid_def credential_token_eq)
  have n: "''stale'' \<noteq> generate_session_token 5"
  proof
    assume "''stale'' = generate_session_token 5"
    then have "length ''stale'' = length (generate_session_token 5)"
      by (rule arg_cong)
    then show False
      by (simp add: generate_session_token_def length_hexlify length_to_bytes)
  qed
  have o: "ObjectId (str_oid 8) = Inr (binary 8) \<and> binary 8 \<notin> binary ` doc_id ` set (users ?d)"
    by (simp add: ObjectId_str_oid binary_eq_iff)
  have b: "ObjectId ''abc'' = Inl (InvalidId ''abc'')"
    by (simp add: ObjectId_def)
  from verify_after_register [OF r]
  have "verify_auth_token (Some ?d) (str_oid 9) (generate_session_token 5) = Inr True
      \<and> (\<forall>t. t \<noteq> generate_session_token 5 \<longrightarrow>
            verify_auth_token (Some ?d) (str_oid 9) t = Inr False)
      \<and> (\<forall>uid bs t d'. Some ?d = Some d' \<and> ObjectId uid = Inr bs
               \<and> bs \<notin> binary ` doc_id ` set (users d') \<longrightarrow>
             verify_auth_token (Some ?d) uid t = Inr False)
      \<and> (\<forall>uid err t. ObjectId uid = Inl err \<longrightarrow> verify_auth_token (Some ?d) uid t = Inl err)"
    unfolding u t by blast
  with r n o b show ?thesis by blast
qed




section \<open>Conversations\<close>

text \<open>
  C5. When \<open>new_conversation\<close> returns an identifier, \<open>get_chat_history\<close> for the same
  user and that identifier returns the one-element history holding the system message
  (role \<open>system\<close>, the fixed instruction as content), and \<open>get_prompt_suggestions\<close>
  returns the list of suggestions that was passed in.
\<close>

theorem new_conversation_then_read:
  assumes "new_conversation db new_id u s = (Inr cid, db')"
  shows "get_chat_history db' u cid = Inr (Arr [system_message])
       \<and> get_prompt_suggestions db' u cid = Inr (Arr (map Str s))"
proof -
  let ?f = "[(''_id'', OId (binary new_id)), (''user_id'', Str u)]"
  let ?n = "\<lparr>doc_id = new_id,
             body = [(''user_id'', Str u), (''history'', Arr [system_message]),
                     (''prompt_suggestions'', Arr (map Str s))]\<rparr>"
  from assms obtain d where db: "db = Some d"
    by (cases db) (auto simp: new_conversation_def)
  from assms obtain d' where db': "db' = Some d'"
    and fresh: "new_id \<notin> doc_id ` set (conversations d)"
    and cid: "cid = str_oid new_id"
    and d': "conversations d' = conversations d @ [?n]"
    by (auto simp: db new_conversation_def insert_one_def split: if_splits)
  from fresh have "binary new_id \<notin> binary ` doc_id ` set (conversations d)"
    by (auto simp: binary_eq_iff)
  then have "find_one (conversations d) ?f = None"
    using missing_unmatched by (simp add: find_one_None)
  moreover have "matches ?f ?n"
    by (simp add: matches_conversation value_matches_Str)
  ultimately have "find_conversation db' u cid = Inr (Some ?n)"
    by (simp add: find_conversation_def db' cid ObjectId_str_oid d' find_one_snoc)
  then show ?thesis
    by (simp add: get_chat_history_def get_prompt_suggestions_def subscript_def doc_get_def)
qed

theorem new_conversation_then_read_witness:
  "new_conversation (Some \<lparr>users = [], conversations = []\<rparr>) 3 ''alice'' [''s1'', ''s2''] =
     (Inr (str_oid 3),
      Some \<lparr>users = [], conversations =
         [\<lparr>doc_id = 3, body = [(''user_id'', Str ''alice''), (''history'', Arr [system_message]),
                                (''prompt_suggestions'', Arr [Str ''s1'', Str ''s2''])]\<rparr>]\<rparr>)
   \<and> get_chat_history
      (Some \<lparr>users = [], conversations =
         [\<lparr>doc_id = 3, body = [(''user_id'', Str ''alice''), (''history'', Arr [system_message]),
                                (''prompt_suggestions'', Arr [Str ''s1'', Str ''s2''])]\<rparr>]\<rparr>)
      ''alice'' (str_oid 3) = Inr (Arr [system_message])
   \<and> get_prompt_suggestions
      (Some \<lparr>users = [], conversations =
         [\<lparr>doc_id = 3, body = [(''user_id'', Str ''alice''), (''history'', Arr [system_message]),
                                (''prompt_suggestions'', Arr [Str ''s1'', Str ''s2''])]\<rparr>]\<rparr>)
      ''alice'' (str_oid 3) = Inr (Arr [Str ''s1'', Str ''s2''])"
proof -
  let ?d = "\<lparr>users = [], conversations =
         [\<lparr>doc_id = 3, body = [(''user_id'', Str ''alice''), (''history'', Arr [system_message]),
                                (''prompt_suggestions'', Arr [Str ''s1'', Str ''s2''])]\<rparr>]\<rparr>"
  have r: "new_conversation (Some \<lparr>users = [], conversations = []\<rparr>) 3 ''alice'' [''s1'', ''s2''] =
     (Inr (str_oid 3), Some ?d)"
    by (simp add: new_conversation_def insert_one_def)
  from new_conversation_then_read [OF r] r show ?thesis by simp
qed

text \<open>
  C6. For a stored conversation \<open>c\<close> of user \<open>u\<close> and any list \<open>H\<close>,
  \<open>update_chat_history\<close> returns True, and afterwards \<open>get_chat_history\<close> returns
  exactly \<open>H\<close>; only the history is replaced: the suggestions read as before and
  no user document changes.
\<close>

theorem update_chat_history_then_read:
  assumes "c \<in> set (conversations d)"
    and "ObjectId cid = Inr (binary (doc_id c))"
    and "map_of (body c) ''user_id'' = Some (Str u)"
  shows "fst (update_chat_history (Some d) u cid H) = Inr True
       \<and> get_chat_history (snd (update_chat_history (Some d) u cid H)) u cid = Inr (Arr H)
       \<and> get_prompt_suggestions (snd (update_chat_history (Some d) u cid H)) u cid =
           get_prompt_suggestions (Some d) u cid
       \<and> map_option users (snd (update_chat_history (Some d) u cid H)) = Some (users d)"
proof -
  let ?f = "[(''_id'', OId (binary (doc_id c))), (''user_id'', Str u)]"
  let ?s = "[(''history'', Arr H)]"
  have "matches ?f c"
    using assms(3) by (simp add: matches_conversation value_matches_Str)
  with assms(1) obtain x where x: "find_one (conversations d) ?f = Some x"
    by (cases "find_one (conversations d) ?f") (auto simp: find_one_None)
  have after: "find_one (snd (update_one (conversations d) ?f ?s)) ?f = Some (apply_set ?s x)"
    by (simp add: find_one_update_one_same set_history_keeps_filter x)
  have hit: "0 < fst (update_one (conversations d) ?f ?s)"
    by (simp add: update_one_matched x)
  have h: "doc_get (apply_set ?s x) ''history'' = Some (Arr H)"
    by (simp add: doc_get_def apply_set_def update_conv')
  have p: "doc_get (apply_set ?s x) ''prompt_suggestions'' = doc_get x ''prompt_suggestions''"
    by (simp add: doc_get_def apply_set_def update_conv')
  show ?thesis
    using hit
    by (simp add: update_chat_history_def assms(2) Let_def get_chat_history_def
        get_prompt_suggestions_def find_conversation_def subscript_def after x h p)
qed

theorem update_chat_history_then_read_witness:
  "fst (update_chat_history
      (Some \<lparr>users = [], conversations =
         [\<lparr>doc_id = 3, body = [(''user_id'', Str ''alice''), (''history'', Arr [system_message]),
                                (''prompt_suggestions'', Arr [Str ''s1''])]\<rparr>]\<rparr>)
      ''alice'' (str_oid 3) [system_message, Doc [(''role'', Str ''user''), (''content'', Str ''hi'')]])
     = Inr True
   \<and> get_chat_history (snd (update_chat_history
      (Some \<lparr>users = [], conversations =
         [\<lparr>doc_id = 3, body = [(''user_id'', Str ''alice''), (''history'', Arr [system_message]),
                                (''prompt_suggestions'', Arr [Str ''s1''])]\<rparr>]\<rparr>)
      ''alice'' (str_oid 3) [system_message, Doc [(''role'', Str ''user''), (''content'', Str ''hi'')]]))
      ''alice'' (str_oid 3)
     = Inr (Arr [system_message, Doc [(''role'', Str ''user''), (''content'', Str ''hi'')]])"
  using update_chat_history_then_read
     [of "\<lparr>doc_id = 3, body = [(''user_id'', Str ''alice''), (''history'', Arr [system_message]),
                                (''prompt_suggestions'', Arr [Str ''s1''])]\<rparr>"
      "\<lparr>users = [], conversations =
         [\<lparr>doc_id = 3, body = [(''user_id'', Str ''alice''), (''history'', Arr [system_message]),
                                (''prompt_suggestions'', Arr [Str ''s1''])]\<rparr>]\<rparr>"
      "str_oid 3" "''alice''"
      "[system_message, Doc [(''role'', Str ''user''), (''content'', Str ''hi'')]]"]
  by (simp add: ObjectId_str_oid)

text \<open>
  C7. The claim fails for an identifier that \<^verbatim>\<open>ObjectId\<close> rejects: the pair
  matches no document, yet \<open>update_chat_history\<close> does not return False, it raises
  the generic exception of its \<^verbatim>\<open>try\<close> block. The store is unchanged.
\<close>

theorem update_chat_history_malformed_id_raises:
  "update_chat_history
      (Some \<lparr>users = [], conversations =
         [\<lparr>doc_id = 3, body = [(''user_id'', Str ''alice''), (''history'', Arr [system_message]),
                                (''prompt_suggestions'', Arr [Str ''s1''])]\<rparr>]\<rparr>)
      ''alice'' ''abc'' [Doc [(''role'', Str ''user''), (''content'', Str ''hi'')]]
   = (Inl (Wrapped ''MongoDB error: '' (InvalidId ''abc'')),
      Some \<lparr>users = [], conversations =
         [\<lparr>doc_id = 3, body = [(''user_id'', Str ''alice''), (''history'', Arr [system_message]),
                                (''prompt_suggestions'', Arr [Str ''s1''])]\<rparr>]\<rparr>)"
  by (simp add: update_chat_history_def ObjectId_def)

text \<open>
  C7, what holds. When the pair of a user and a conversation identifier matches no
  stored document, the database after \<open>update_chat_history\<close> is the one it started
  from, so every field of every stored conversation is unchanged, whatever the text of
  the identifier. With a database, the result is False when \<^verbatim>\<open>ObjectId\<close>
  accepts the text (no conversation has the identifier, or the one that has it belongs
  to another user), and the generic exception carrying the exception of
  \<^verbatim>\<open>ObjectId\<close> when it rejects the text. Without a database the result is
  the generic exception carrying the \<^verbatim>\<open>TypeError\<close> of subscripting None.
\<close>

theorem update_chat_history_unmatched_noop:
  assumes "\<forall>d bs. db = Some d \<and> ObjectId cid = Inr bs \<longrightarrow>
             (\<forall>c \<in> set (conversations d). \<not> matches [(''_id'', OId bs), (''user_id'', Str u)] c)"
  shows "snd (update_chat_history db u cid H) = db
       \<and> (\<forall>bs. db \<noteq> None \<and> ObjectId cid = Inr bs \<longrightarrow>
             fst (update_chat_history db u cid H) = Inr False)
       \<and> (\<forall>e. db \<noteq> None \<and> ObjectId cid = Inl e \<longrightarrow>
             fst (update_chat_history db u cid H) = Inl (Wrapped ''MongoDB error: '' e))
       \<and> (db = None \<longrightarrow>
             fst (update_chat_history db u cid H) =
               Inl (Wrapped ''MongoDB error: '' NoneNotSubscriptable))"
proof (cases db)
  case None
  then show ?thesis by (simp add: update_chat_history_def)
next
  case (Some d)
  show ?thesis
  proof (cases "ObjectId cid")
    case (Inl e)
    then show ?thesis by (simp add: Some update_chat_history_def)
  next
    case (Inr bs)
    with assms Some
    have "find_one (conversations d) [(''_id'', OId bs), (''user_id'', Str u)] = None"
      by (simp add: find_one_None)
    then show ?thesis
      by (simp add: Some update_chat_history_def Inr Let_def update_one_unmatched)
  qed
qed

theorem update_chat_history_unmatched_noop_witness:
  "update_chat_history
      (Some \<lparr>users = [], conversations =
         [\<lparr>doc_id = 3, body = [(''user_id'', Str ''alice''), (''history'', Arr [system_message]),
                                (''prompt_suggestions'', Arr [Str ''s1''])]\<rparr>]\<rparr>)
      ''bob'' (str_oid 3) [Doc [(''role'', Str ''user''), (''content'', Str ''hi'')]]
   = (Inr False,
      Some \<lparr>users = [], conversations =
         [\<lparr>doc_id = 3, body = [(''user_id'', Str ''alice''), (''history'', Arr [system_message]),
                                (''prompt_suggestions'', Arr [Str ''s1''])]\<rparr>]\<rparr>)
   \<and> update_chat_history
      (Some \<lparr>users = [], conversations =
         [\<lparr>doc_id = 3, body = [(''user_id'', Str ''alice''), (''history'', Arr [system_message]),
                                (''prompt_suggestions'', Arr [Str ''s1''])]\<rparr>]\<rparr>)
      ''alice'' (str_oid 4) [Doc [(''role'', Str ''user''), (''content'', Str ''hi'')]]
   = (Inr False,
      Some \<lparr>users = [], conversations =
         [\<lparr>doc_id = 3, body = [(''user_id'', Str ''alice''), (''history'', Arr [system_message]),
                                (''prompt_suggestions'', Arr [Str ''s1''])]\<rparr>]\<rparr>)"
proof -
  let ?d = "\<lparr>users = [], conversations =
         [\<lparr>doc_id = 3, body = [(''user_id'', Str ''alice''), (''history'', Arr [system_message]),
                                (''prompt_suggestions'', Arr [Str ''s1''])]\<rparr>]\<rparr>"
  let ?H = "[Doc [(''role'', Str ''user''), (''content'', Str ''hi'')]]"
  have a: "\<forall>d bs. Some ?d = Some d \<and> ObjectId (str_oid 3) = Inr bs \<longrightarrow>
             (\<forall>c \<in> set (conversations d). \<not> matches [(''_id'', OId bs), (''user_id'', Str ''bob'')] c)"
    by (auto simp: ObjectId_str_oid matches_conversation value_matches_Str)
  have b: "\<forall>d bs. Some ?d = Some d \<and> ObjectId (str_oid 4) = Inr bs \<longrightarrow>
             (\<forall>c \<in> set (conversations d). \<not> matches [(''_id'', OId bs), (''user_id'', Str ''alice'')] c)"
    by (auto simp: ObjectId_str_oid matches_conversation binary_eq_iff)
  from update_chat_history_unmatched_noop [OF a, of ?H]
  have x: "update_chat_history (Some ?d) ''bob'' (str_oid 3) ?H = (Inr False, Some ?d)"
    by (simp add: ObjectId_str_oid prod_eq_iff)
  from update_chat_history_unmatched_noop [OF b, of ?H]
  have y: "update_chat_history (Some ?d) ''alice'' (str_oid 4) ?H = (Inr False, Some ?d)"
    by (simp add: ObjectId_str_oid prod_eq_iff)
  from x y show ?thesis by simp
qed

section \<open>The singleton connection\<close>

lemma MongoHandler_new_again:
  "cls_instance st = Some h \<Longrightarrow> MongoHandler_new mk st uri = (Inr h, st)"
  by (simp add: MongoHandler_new_def)

lemma MongoHandler_calls_again:
  "cls_instance st = Some h \<Longrightarrow>
   MongoHandler_calls mk st uris = (replicate (length uris) (Inr h), st)"
  by (induction uris) (simp_all add: MongoHandler_new_again)

text \<open>
  The instance is recorded before the client is created. When the constructor of the
  client raises in the first call, the instance stays recorded: a later call returns it
  with no client and no database behind it.
\<close>

lemma MongoHandler_new_after_failure:
  assumes "MongoHandler_new mk class_start uri = (Inl e, st)"
  shows "MongoHandler_new mk' st uri' = (Inr (Obj 0), st) \<and> cls_client st = None \<and> cls_db st = None"
  using assms
  by (auto simp: MongoHandler_new_def class_start_def Let_def split: sum.splits)

text \<open>
  C9. When the first call of \<open>MongoHandler_new\<close> in a process returns a handle, the
  client and the database are set and one connection was opened; every later call,
  with whatever connection string, returns that same handle and leaves the class
  attributes as they are: no client is created again.
\<close>

theorem MongoHandler_new_idempotent:
  assumes "MongoHandler_new mk class_start uri = (Inr h, st)"
  shows "cls_client st \<noteq> None \<and> cls_db st \<noteq> None \<and> opened st = [uri]
       \<and> MongoHandler_calls mk' st uris = (replicate (length uris) (Inr h), st)"
proof -
  from assms have "cls_instance st = Some h" and "cls_client st \<noteq> None" and "cls_db st \<noteq> None"
    and "opened st = [uri]"
    by (auto simp: MongoHandler_new_def class_start_def Let_def split: sum.splits)
  then show ?thesis
    by (simp add: MongoHandler_calls_again)
qed

theorem MongoHandler_new_idempotent_witness:
  "MongoHandler_new (\<lambda>uri. Inr uri) class_start ''mongodb://a'' =
     (Inr (Obj 0),
      \<lparr>cls_instance = Some (Obj 0), cls_client = Some ''mongodb://a'',
       cls_db = Some (''mongodb://a'', ''askage''), allocated = 1, opened = [''mongodb://a'']\<rparr>)
   \<and> MongoHandler_calls (\<lambda>uri. Inl (InvalidURI uri))
      \<lparr>cls_instance = Some (Obj 0), cls_client = Some ''mongodb://a'',
       cls_db = Some (''mongodb://a'', ''askage''), allocated = 1, opened = [''mongodb://a'']\<rparr>
      [''mongodb://b'', ''mongodb://a''] =
     ([Inr (Obj 0), Inr (Obj 0)],
      \<lparr>cls_instance = Some (Obj 0), cls_client = Some ''mongodb://a'',
       cls_db = Some (''mongodb://a'', ''askage''), allocated = 1, opened = [''mongodb://a'']\<rparr>)"
proof -
  let ?st = "\<lparr>cls_instance = Some (Obj 0), cls_client = Some ''mongodb://a'',
       cls_db = Some (''mongodb://a'', ''askage''), allocated = 1, opened = [''mongodb://a'']\<rparr>"
  have r: "MongoHandler_new (\<lambda>uri. Inr uri) class_start ''mongodb://a'' = (Inr (Obj 0), ?st)"
    by (simp add: MongoHandler_new_def class_start_def Let_def)
  from MongoHandler_new_idempotent
         [OF r, of "\<lambda>uri. Inl (InvalidURI uri)" "[''mongodb://b'', ''mongodb://a'']"] r
  show ?thesis by simp
qed

end
